theory Spec2Isabelle
  imports Main
begin

section \<open>The batch-size constants of the On Demand parser\<close>

text \<open>
  \<^verbatim>\<open>static constexpr size_t DEFAULT_BATCH_SIZE = 1000000;\<close> and
  \<^verbatim>\<open>static constexpr size_t MINIMAL_BATCH_SIZE = 32;\<close> (parser.h, lines 18 and 27).
  A \<^verbatim>\<open>size_t\<close> is read as a natural number: the header does no arithmetic on it, and
  both constants fit every width of \<^verbatim>\<open>size_t\<close> of at least 20 bits.
\<close>

definition DEFAULT_BATCH_SIZE :: nat where
  "DEFAULT_BATCH_SIZE = 1000000"

definition MINIMAL_BATCH_SIZE :: nat where
  "MINIMAL_BATCH_SIZE = 32"

section \<open>The declarations of \<open>parser::iterate\<close> and \<open>parser::iterate_many\<close>\<close>

text \<open>
  The header declares two overload sets. A declaration is kept as data: the parameters in
  order, each with its name, its type, the way it is passed and its default argument, whether
  the member function carries the \<^verbatim>\<open>&\<close> ref-qualifier, and whether it is
  \<^verbatim>\<open>= delete\<close>.
\<close>

datatype cpp_type =
    CharPtr
  | Uint8Ptr
  | SizeT
  | StringView
  | StdString
  | PaddedStringView
  | PaddedString
  | ResultPaddedString
  | ResultPaddedStringView

text \<open>
  \<open>ByValue\<close> is \<^verbatim>\<open>T\<close>, \<open>ConstLRef\<close> is \<^verbatim>\<open>const T &\<close>, \<open>RRef\<close> is \<^verbatim>\<open>T &&\<close> and
  \<open>ConstRRef\<close> is \<^verbatim>\<open>const T &&\<close>. The pointer parameters (\<^verbatim>\<open>const char *\<close>,
  \<^verbatim>\<open>const uint8_t *\<close>) are passed by value.
\<close>

datatype passing = ByValue | ConstLRef | RRef | ConstRRef

record param =
  pname :: string
  ptype :: cpp_type
  pass :: passing
  default_arg :: "nat option"

record overload =
  params :: "param list"
  lvalue_qualified :: bool
  deleted :: bool

definition par :: "string \<Rightarrow> cpp_type \<Rightarrow> passing \<Rightarrow> param" where
  "par n t w = \<lparr>pname = n, ptype = t, pass = w, default_arg = None\<rparr>"

definition par_default :: "string \<Rightarrow> cpp_type \<Rightarrow> passing \<Rightarrow> nat \<Rightarrow> param" where
  "par_default n t w d = \<lparr>pname = n, ptype = t, pass = w, default_arg = Some d\<rparr>"

text \<open>The twelve declarations of \<open>iterate\<close>, lines 87 to 144, in the header's order.\<close>

definition iterate_overloads :: "overload list" where
  "iterate_overloads =
    [ \<lparr>params = [par ''json'' CharPtr ByValue, par ''len'' SizeT ByValue],
        lvalue_qualified = True, deleted = False\<rparr>,
      \<lparr>params = [par ''view'' StringView ByValue],
        lvalue_qualified = True, deleted = False\<rparr>,
      \<lparr>params = [par ''json'' StdString ConstLRef],
        lvalue_qualified = True, deleted = False\<rparr>,
      \<lparr>params = [par ''json'' PaddedStringView ByValue],
        lvalue_qualified = True, deleted = False\<rparr>,
      \<lparr>params = [par ''json'' PaddedString ConstLRef],
        lvalue_qualified = True, deleted = False\<rparr>,
      \<lparr>params = [par ''json'' CharPtr ByValue, par ''len'' SizeT ByValue,
                  par ''capacity'' SizeT ByValue],
        lvalue_qualified = True, deleted = False\<rparr>,
      \<lparr>params = [par ''json'' Uint8Ptr ByValue, par ''len'' SizeT ByValue,
                  par ''capacity'' SizeT ByValue],
        lvalue_qualified = True, deleted = False\<rparr>,
      \<lparr>params = [par ''json'' StringView ByValue, par ''capacity'' SizeT ByValue],
        lvalue_qualified = True, deleted = False\<rparr>,
      \<lparr>params = [par ''json'' ResultPaddedString ConstLRef],
        lvalue_qualified = True, deleted = False\<rparr>,
      \<lparr>params = [par ''json'' ResultPaddedStringView ConstLRef],
        lvalue_qualified = True, deleted = False\<rparr>,
      \<lparr>params = [par ''json'' PaddedString RRef],
        lvalue_qualified = True, deleted = True\<rparr>,
      \<lparr>params = [par ''json'' StdString RRef],
        lvalue_qualified = True, deleted = True\<rparr> ]"

text \<open>The eight declarations of \<open>iterate_many\<close>, lines 208 to 220, in the header's order.\<close>

definition iterate_many_overloads :: "overload list" where
  "iterate_many_overloads =
    [ \<lparr>params = [par ''view'' StringView ByValue,
                  par_default ''batch_size'' SizeT ByValue DEFAULT_BATCH_SIZE],
        lvalue_qualified = False, deleted = False\<rparr>,
      \<lparr>params = [par ''buf'' Uint8Ptr ByValue, par ''len'' SizeT ByValue,
                  par_default ''batch_size'' SizeT ByValue DEFAULT_BATCH_SIZE],
        lvalue_qualified = False, deleted = False\<rparr>,
      \<lparr>params = [par ''buf'' CharPtr ByValue, par ''len'' SizeT ByValue,
                  par_default ''batch_size'' SizeT ByValue DEFAULT_BATCH_SIZE],
        lvalue_qualified = False, deleted = False\<rparr>,
      \<lparr>params = [par ''s'' StdString ConstLRef,
                  par_default ''batch_size'' SizeT ByValue DEFAULT_BATCH_SIZE],
        lvalue_qualified = False, deleted = False\<rparr>,
      \<lparr>params = [par ''s'' StdString ConstRRef, par ''batch_size'' SizeT ByValue],
        lvalue_qualified = False, deleted = True\<rparr>,
      \<lparr>params = [par ''s'' PaddedString ConstLRef,
                  par_default ''batch_size'' SizeT ByValue DEFAULT_BATCH_SIZE],
        lvalue_qualified = False, deleted = False\<rparr>,
      \<lparr>params = [par ''s'' PaddedString ConstRRef, par ''batch_size'' SizeT ByValue],
        lvalue_qualified = False, deleted = True\<rparr>,
      \<lparr>params = [par ''buf'' CharPtr ByValue,
                  par_default ''batch_size'' SizeT ByValue DEFAULT_BATCH_SIZE],
        lvalue_qualified = False, deleted = True\<rparr> ]"

text \<open>
  The value a call gives the parameter \<open>batch_size\<close> of the overload it binds to: the
  argument when the call writes one, the declaration's default argument otherwise (none when
  the declaration has no default, and then the overload cannot be called that way).
\<close>

definition batch_size_used :: "overload \<Rightarrow> nat option \<Rightarrow> nat option" where
  "batch_size_used f explicit =
     (case explicit of
        Some b \<Rightarrow> Some b
      | None \<Rightarrow>
          (case find (\<lambda>p. pname p = ''batch_size'') (params f) of
             None \<Rightarrow> None
           | Some p \<Rightarrow> default_arg p))"

section \<open>Which overload a call selects\<close>

text \<open>
  An argument of a call: its type, whether it is a temporary (an rvalue) and whether it is
  const. Only arguments that have a parameter's type exactly are modelled, which is what
  the deleted overloads are declared for: an implicit conversion (a \<^verbatim>\<open>std::string\<close> to a
  \<^verbatim>\<open>std::string_view\<close>, say) ranks below every exact match in overload resolution, so
  it never changes the overload that an exactly matching argument selects.
\<close>

record arg =
  atype :: cpp_type
  temporary :: bool
  is_const :: bool

text \<open>
  Reference binding: a parameter passed by value or by \<^verbatim>\<open>const T &\<close> takes lvalues and
  temporaries alike (every type the header passes by value is copyable); \<^verbatim>\<open>T &&\<close>
  takes only a temporary that is not const; \<^verbatim>\<open>const T &&\<close> takes every temporary.
\<close>

fun binds :: "passing \<Rightarrow> arg \<Rightarrow> bool" where
  "binds ByValue a = True"
| "binds ConstLRef a = True"
| "binds RRef a = (temporary a \<and> \<not> is_const a)"
| "binds ConstRRef a = temporary a"

definition accepts :: "param \<Rightarrow> arg \<Rightarrow> bool" where
  "accepts p a = (ptype p = atype a \<and> binds (pass p) a)"

text \<open>
  A declaration is viable for a call when it has a parameter for every argument, every
  argument binds to its parameter, and every parameter the call leaves out has a default
  argument.
\<close>

fun viable :: "param list \<Rightarrow> arg list \<Rightarrow> bool" where
  "viable [] [] = True"
| "viable [] (a # as) = False"
| "viable (p # ps) [] = (default_arg p \<noteq> None \<and> viable ps [])"
| "viable (p # ps) (a # as) = (accepts p a \<and> viable ps as)"

text \<open>
  Among exact matches one binding is better than another in one case only: the argument is
  a temporary, the first parameter is an rvalue reference and the second an lvalue
  reference. (The language also prefers \<^verbatim>\<open>T &&\<close> to \<^verbatim>\<open>const T &&\<close>; neither overload
  set declares both for one type.) A declaration is better than another for a call when
  some argument binds better to it and none binds better to the other.
\<close>

definition binds_better :: "param \<Rightarrow> param \<Rightarrow> arg \<Rightarrow> bool" where
  "binds_better p q a =
     (temporary a \<and> (pass p = RRef \<or> pass p = ConstRRef) \<and> pass q = ConstLRef)"

definition better :: "overload \<Rightarrow> overload \<Rightarrow> arg list \<Rightarrow> bool" where
  "better f g as =
     (let z = zip (zip (params f) (params g)) as
      in list_ex (\<lambda>((p, q), a). binds_better p q a) z
       \<and> \<not> list_ex (\<lambda>((p, q), a). binds_better q p a) z)"

datatype resolution = Selected overload | Ambiguous | NoExactMatch

text \<open>
  The call selects the viable declaration that is better than every other viable one; with
  several viable declarations and no such best one the call is ambiguous. A deleted
  declaration takes part like any other, and a call that selects it is ill-formed.
\<close>

definition resolve :: "overload list \<Rightarrow> arg list \<Rightarrow> resolution" where
  "resolve fs as =
     (let vs = filter (\<lambda>f. viable (params f) as) fs;
          best = filter (\<lambda>f. list_all (\<lambda>g. g = f \<or> better f g as) vs) vs
      in case vs of
           [] \<Rightarrow> NoExactMatch
         | _ # _ \<Rightarrow> (case best of [f] \<Rightarrow> Selected f | _ \<Rightarrow> Ambiguous))"

definition selects_deleted :: "resolution \<Rightarrow> bool" where
  "selects_deleted r = (case r of Selected f \<Rightarrow> deleted f | _ \<Rightarrow> False)"

definition selects_callable :: "resolution \<Rightarrow> bool" where
  "selects_callable r = (case r of Selected f \<Rightarrow> \<not> deleted f | _ \<Rightarrow> False)"

section \<open>The parser's capacity\<close>

text \<open>
  \<^verbatim>\<open>SIMDJSON_MAXSIZE_BYTES\<close> and \<^verbatim>\<open>DEFAULT_MAX_DEPTH\<close> are used by the header and
  defined in another file of the library; they are parameters of the model.
\<close>

record limits =
  SIMDJSON_MAXSIZE_BYTES :: nat
  DEFAULT_MAX_DEPTH :: nat

text \<open>
  The members \<^verbatim>\<open>size_t _capacity{0}; size_t _max_capacity; size_t _max_depth{DEFAULT_MAX_DEPTH};\<close>
  (lines 252 to 254). The buffers the parser owns are not modelled.
\<close>

record parser =
  p_capacity :: nat
  p_max_capacity :: nat
  p_max_depth :: nat

text \<open>
  Modelled from the spec: \<^verbatim>\<open>simdjson/error.h\<close>, which declares \<^verbatim>\<open>error_code\<close>, is
  another file of the library. These are the codes that the header's documentation of
  \<open>iterate\<close> and \<open>iterate_many\<close> names (lines 80 to 85, 203 and 204).
\<close>

datatype error_code =
    MEMALLOC
  | CAPACITY
  | EMPTY
  | UTF8_ERROR
  | UNESCAPED_CHARS
  | UNCLOSED_STRING

text \<open>
  Modelled from the spec: the body of the constructor
  \<^verbatim>\<open>explicit parser(size_t max_capacity = SIMDJSON_MAXSIZE_BYTES)\<close> is not in the header.
  The default argument and the member initialisers are the header's (\<open>None\<close> is a call that
  writes no argument); that the argument becomes the ceiling \<^verbatim>\<open>_max_capacity\<close>, the one
  member with no initialiser of its own, follows the spec (``\<open>capacity\<close>: 0 at construction'',
  ``\<open>max_capacity\<close>: hard ceiling'', ``\<open>max_depth\<close>: default fixed constant'').
\<close>

definition new_parser :: "limits \<Rightarrow> nat option \<Rightarrow> parser" where
  "new_parser L max_capacity_arg =
     \<lparr>p_capacity = 0,
      p_max_capacity =
        (case max_capacity_arg of None \<Rightarrow> SIMDJSON_MAXSIZE_BYTES L | Some m \<Rightarrow> m),
      p_max_depth = DEFAULT_MAX_DEPTH L\<rparr>"

text \<open>
  Modelled from the spec: the bodies of the accessors \<^verbatim>\<open>capacity()\<close>,
  \<^verbatim>\<open>max_capacity()\<close>, \<^verbatim>\<open>max_depth()\<close> and of \<^verbatim>\<open>set_max_capacity(n)\<close> are not in the
  header; each reads or writes the member it is named after (the spec's capacity controls).
\<close>

definition capacity :: "parser \<Rightarrow> nat" where
  "capacity p = p_capacity p"

definition max_capacity :: "parser \<Rightarrow> nat" where
  "max_capacity p = p_max_capacity p"

definition max_depth :: "parser \<Rightarrow> nat" where
  "max_depth p = p_max_depth p"

definition set_max_capacity :: "parser \<Rightarrow> nat \<Rightarrow> parser" where
  "set_max_capacity p n = p\<lparr>p_max_capacity := n\<rparr>"

text \<open>
  Modelled from the spec: the body of \<^verbatim>\<open>allocate(capacity, max_depth)\<close> is not in the
  header. The spec: a request above \<open>max_capacity\<close> fails (the header's \<open>CAPACITY\<close>); buffers
  are (re)allocated only if the current capacity or depth is insufficient; a failed
  allocation is the header's \<open>MEMALLOC\<close>. Whether the system can supply the memory is the
  parameter \<open>mem\<close>.
\<close>

definition allocate ::
  "(nat \<Rightarrow> nat \<Rightarrow> bool) \<Rightarrow> parser \<Rightarrow> nat \<Rightarrow> nat \<Rightarrow> error_code + parser" where
  "allocate mem p new_capacity new_max_depth =
     (if max_capacity p < new_capacity then Inl CAPACITY
      else if new_capacity \<le> capacity p \<and> new_max_depth \<le> max_depth p then Inr p
      else if \<not> mem new_capacity new_max_depth then Inl MEMALLOC
      else Inr (p\<lparr>p_capacity := new_capacity, p_max_depth := new_max_depth\<rparr>))"

section \<open>The default batch size and the floor\<close>

lemma callable_iterate_many:
  "filter (\<lambda>f. \<not> deleted f) iterate_many_overloads =
     [iterate_many_overloads ! 0, iterate_many_overloads ! 1, iterate_many_overloads ! 2,
      iterate_many_overloads ! 3, iterate_many_overloads ! 5]"
  by (simp add: iterate_many_overloads_def)

text \<open>
  C8. Every overload of \<open>iterate_many\<close> that can be called gives \<open>batch_size\<close> the default
  argument \<open>DEFAULT_BATCH_SIZE\<close>, so a call that writes no batch size uses exactly 1000000
  bytes; an explicit batch size is passed as it is; and the floor \<open>MINIMAL_BATCH_SIZE\<close> is
  exactly 32 bytes.
\<close>

theorem default_batch_size_is_one_million:
  assumes "f \<in> set iterate_many_overloads" and "\<not> deleted f"
  shows "batch_size_used f None = Some 1000000
       \<and> batch_size_used f (Some b) = Some b
       \<and> DEFAULT_BATCH_SIZE = 1000000
       \<and> MINIMAL_BATCH_SIZE = 32"
proof -
  from assms have "f \<in> set (filter (\<lambda>f. \<not> deleted f) iterate_many_overloads)"
    by simp
  then have "f \<in> {iterate_many_overloads ! 0, iterate_many_overloads ! 1,
      iterate_many_overloads ! 2, iterate_many_overloads ! 3, iterate_many_overloads ! 5}"
    unfolding callable_iterate_many by simp
  then have "batch_size_used f None = Some 1000000"
    by (auto simp: iterate_many_overloads_def batch_size_used_def par_def par_default_def
        DEFAULT_BATCH_SIZE_def)
  moreover have "batch_size_used f (Some b) = Some b"
    by (simp add: batch_size_used_def)
  ultimately show ?thesis
    by (simp add: DEFAULT_BATCH_SIZE_def MINIMAL_BATCH_SIZE_def)
qed

theorem default_batch_size_witness:
  "iterate_many_overloads ! 3 \<in> set iterate_many_overloads
   \<and> \<not> deleted (iterate_many_overloads ! 3)
   \<and> batch_size_used (iterate_many_overloads ! 3) None = Some 1000000
   \<and> batch_size_used (iterate_many_overloads ! 3) (Some 64) = Some 64
   \<and> DEFAULT_BATCH_SIZE = 1000000
   \<and> MINIMAL_BATCH_SIZE = 32"
proof -
  have m: "iterate_many_overloads ! 3 \<in> set iterate_many_overloads"
    by (simp add: iterate_many_overloads_def)
  have d: "\<not> deleted (iterate_many_overloads ! 3)"
    by (simp add: iterate_many_overloads_def)
  from default_batch_size_is_one_million [OF m d, of 64] m d show ?thesis
    by simp
qed

section \<open>A parser constructed with no argument\<close>

text \<open>
  C9. A parser constructed with no argument has capacity 0 and the ceiling
  \<open>SIMDJSON_MAXSIZE_BYTES\<close>; only \<open>set_max_capacity\<close> changes the ceiling. Before any such
  call the parser can therefore grow up to that limit: \<open>allocate\<close> refuses a request with
  \<open>CAPACITY\<close> exactly when the request is above \<open>SIMDJSON_MAXSIZE_BYTES\<close>, and a request up
  to the limit that the system can serve leaves the parser with the requested capacity and
  the same ceiling.
\<close>

theorem default_parser_ceiling:
  "capacity (new_parser L None) = 0
   \<and> max_capacity (new_parser L None) = SIMDJSON_MAXSIZE_BYTES L
   \<and> max_capacity (set_max_capacity (new_parser L None) n) = n
   \<and> (allocate mem (new_parser L None) c d = Inl CAPACITY \<longleftrightarrow> SIMDJSON_MAXSIZE_BYTES L < c)
   \<and> (c \<le> SIMDJSON_MAXSIZE_BYTES L \<and> mem c d \<longrightarrow>
        (\<exists>p. allocate mem (new_parser L None) c d = Inr p
           \<and> capacity p = c \<and> max_capacity p = SIMDJSON_MAXSIZE_BYTES L))"
proof (intro conjI impI)
  show "capacity (new_parser L None) = 0"
    by (simp add: capacity_def new_parser_def)
  show "max_capacity (new_parser L None) = SIMDJSON_MAXSIZE_BYTES L"
    by (simp add: max_capacity_def new_parser_def)
  show "max_capacity (set_max_capacity (new_parser L None) n) = n"
    by (simp add: max_capacity_def set_max_capacity_def)
  show "allocate mem (new_parser L None) c d = Inl CAPACITY \<longleftrightarrow> SIMDJSON_MAXSIZE_BYTES L < c"
    by (simp add: allocate_def max_capacity_def capacity_def new_parser_def)
next
  assume "c \<le> SIMDJSON_MAXSIZE_BYTES L \<and> mem c d"
  then show "\<exists>p. allocate mem (new_parser L None) c d = Inr p
           \<and> capacity p = c \<and> max_capacity p = SIMDJSON_MAXSIZE_BYTES L"
    by (auto simp add: allocate_def max_capacity_def capacity_def max_depth_def new_parser_def)
qed

theorem default_parser_ceiling_witness:
  "capacity (new_parser \<lparr>SIMDJSON_MAXSIZE_BYTES = 4294967295, DEFAULT_MAX_DEPTH = 1024\<rparr> None) = 0
   \<and> max_capacity (new_parser \<lparr>SIMDJSON_MAXSIZE_BYTES = 4294967295, DEFAULT_MAX_DEPTH = 1024\<rparr> None)
       = 4294967295
   \<and> (\<exists>p. allocate (\<lambda>c d. True)
          (new_parser \<lparr>SIMDJSON_MAXSIZE_BYTES = 4294967295, DEFAULT_MAX_DEPTH = 1024\<rparr> None)
          1000000 1024 = Inr p
        \<and> capacity p = 1000000 \<and> max_capacity p = 4294967295)"
  using default_parser_ceiling
    [of "\<lparr>SIMDJSON_MAXSIZE_BYTES = 4294967295, DEFAULT_MAX_DEPTH = 1024\<rparr>"
        0 "\<lambda>c d. True" 1000000 1024]
  by simp

section \<open>The deleted overloads\<close>

lemma resolve_single:
  assumes "filter (\<lambda>f. viable (params f) as) fs = [f]"
  shows "resolve fs as = Selected f"
  using assms by (simp add: resolve_def)

lemma resolve_pair:
  assumes "filter (\<lambda>f. viable (params f) as) fs = [g, f]" and "g \<noteq> f"
    and "better f g as" and "\<not> better g f as"
  shows "resolve fs as = Selected f"
  using assms by (auto simp add: resolve_def)

lemma viable_iterate_temporary_string:
  assumes "temporary a" "\<not> is_const a" "atype a = StdString"
  shows "filter (\<lambda>f. viable (params f) [a]) iterate_overloads
       = [iterate_overloads ! 2, iterate_overloads ! 11]"
  using assms by (simp add: iterate_overloads_def par_def accepts_def)

lemma viable_iterate_temporary_padded_string:
  assumes "temporary a" "\<not> is_const a" "atype a = PaddedString"
  shows "filter (\<lambda>f. viable (params f) [a]) iterate_overloads
       = [iterate_overloads ! 4, iterate_overloads ! 10]"
  using assms by (simp add: iterate_overloads_def par_def accepts_def)

lemma viable_iterate_padded_string_view:
  assumes "atype v = PaddedStringView"
  shows "filter (\<lambda>f. viable (params f) [v]) iterate_overloads = [iterate_overloads ! 3]"
  using assms by (simp add: iterate_overloads_def par_def accepts_def)

lemma viable_iterate_many_temporary_string:
  assumes "temporary a" "atype a = StdString" "atype b = SizeT"
  shows "filter (\<lambda>f. viable (params f) [a, b]) iterate_many_overloads
       = [iterate_many_overloads ! 3, iterate_many_overloads ! 4]"
  using assms by (simp add: iterate_many_overloads_def par_def par_default_def accepts_def)

lemma viable_iterate_many_temporary_padded_string:
  assumes "temporary a" "atype a = PaddedString" "atype b = SizeT"
  shows "filter (\<lambda>f. viable (params f) [a, b]) iterate_many_overloads
       = [iterate_many_overloads ! 5, iterate_many_overloads ! 6]"
  using assms by (simp add: iterate_many_overloads_def par_def par_default_def accepts_def)

lemma iterate_rejects_temporary_string:
  assumes "temporary a" "\<not> is_const a" "atype a = StdString"
  shows "resolve iterate_overloads [a] = Selected (iterate_overloads ! 11)"
proof (rule resolve_pair [OF viable_iterate_temporary_string [OF assms]])
  show "iterate_overloads ! 2 \<noteq> iterate_overloads ! 11"
    by (simp add: iterate_overloads_def)
  show "better (iterate_overloads ! 11) (iterate_overloads ! 2) [a]"
    using assms by (simp add: iterate_overloads_def better_def binds_better_def par_def)
  show "\<not> better (iterate_overloads ! 2) (iterate_overloads ! 11) [a]"
    using assms by (simp add: iterate_overloads_def better_def binds_better_def par_def)
qed


lemma iterate_rejects_temporary_padded_string:
  assumes "temporary a" "\<not> is_const a" "atype a = PaddedString"
  shows "resolve iterate_overloads [a] = Selected (iterate_overloads ! 10)"
proof (rule resolve_pair [OF viable_iterate_temporary_padded_string [OF assms]])
  show "iterate_overloads ! 4 \<noteq> iterate_overloads ! 10"
    by (simp add: iterate_overloads_def)
  show "better (iterate_overloads ! 10) (iterate_overloads ! 4) [a]"
    using assms by (simp add: iterate_overloads_def better_def binds_better_def par_def)
  show "\<not> better (iterate_overloads ! 4) (iterate_overloads ! 10) [a]"
    using assms by (simp add: iterate_overloads_def better_def binds_better_def par_def)
qed

lemma iterate_many_rejects_temporary_string:
  assumes "temporary a" "atype a = StdString" "atype b = SizeT"
  shows "resolve iterate_many_overloads [a, b] = Selected (iterate_many_overloads ! 4)"
proof (rule resolve_pair [OF viable_iterate_many_temporary_string [OF assms]])
  show "iterate_many_overloads ! 3 \<noteq> iterate_many_overloads ! 4"
    by (simp add: iterate_many_overloads_def)
  show "better (iterate_many_overloads ! 4) (iterate_many_overloads ! 3) [a, b]"
    using assms
    by (simp add: iterate_many_overloads_def better_def binds_better_def par_def par_default_def)
  show "\<not> better (iterate_many_overloads ! 3) (iterate_many_overloads ! 4) [a, b]"
    using assms
    by (simp add: iterate_many_overloads_def better_def binds_better_def par_def par_default_def)
qed

lemma iterate_many_rejects_temporary_padded_string:
  assumes "temporary a" "atype a = PaddedString" "atype b = SizeT"
  shows "resolve iterate_many_overloads [a, b] = Selected (iterate_many_overloads ! 6)"
proof (rule resolve_pair [OF viable_iterate_many_temporary_padded_string [OF assms]])
  show "iterate_many_overloads ! 5 \<noteq> iterate_many_overloads ! 6"
    by (simp add: iterate_many_overloads_def)
  show "better (iterate_many_overloads ! 6) (iterate_many_overloads ! 5) [a, b]"
    using assms
    by (simp add: iterate_many_overloads_def better_def binds_better_def par_def par_default_def)
  show "\<not> better (iterate_many_overloads ! 5) (iterate_many_overloads ! 6) [a, b]"
    using assms
    by (simp add: iterate_many_overloads_def better_def binds_better_def par_def par_default_def)
qed

lemma deleted_iterate:
  "deleted (iterate_overloads ! 10)" "deleted (iterate_overloads ! 11)"
  "\<not> deleted (iterate_overloads ! 3)"
  by (simp_all add: iterate_overloads_def)

lemma deleted_iterate_many:
  "deleted (iterate_many_overloads ! 4)" "deleted (iterate_many_overloads ! 6)"
  by (simp_all add: iterate_many_overloads_def)

text \<open>
  C10, as the declarations have it. A call that passes a temporary \<^verbatim>\<open>std::string\<close> or
  \<^verbatim>\<open>padded_string\<close> selects a deleted overload, and so does not compile, in two cases:
  a call of \<open>iterate\<close> whose temporary is not const, and a call of \<open>iterate_many\<close> that also
  writes the batch size. A \<^verbatim>\<open>padded_string_view\<close>, which does not own its buffer, is
  taken by value by an overload of \<open>iterate\<close> that is not deleted, temporary or not.
\<close>

theorem deleted_overloads_reject_owning_temporaries:
  assumes "temporary a" and "atype a = StdString \<or> atype a = PaddedString"
  shows "(\<not> is_const a \<longrightarrow> selects_deleted (resolve iterate_overloads [a]))
       \<and> (atype b = SizeT \<longrightarrow> selects_deleted (resolve iterate_many_overloads [a, b]))
       \<and> (atype v = PaddedStringView \<longrightarrow> selects_callable (resolve iterate_overloads [v]))"
proof (intro conjI impI)
  assume nc: "\<not> is_const a"
  from assms(2) show "selects_deleted (resolve iterate_overloads [a])"
  proof
    assume "atype a = StdString"
    with assms(1) nc show ?thesis
      by (simp add: iterate_rejects_temporary_string selects_deleted_def deleted_iterate)
  next
    assume "atype a = PaddedString"
    with assms(1) nc show ?thesis
      by (simp add: iterate_rejects_temporary_padded_string selects_deleted_def deleted_iterate)
  qed
next
  assume sz: "atype b = SizeT"
  from assms(2) show "selects_deleted (resolve iterate_many_overloads [a, b])"
  proof
    assume "atype a = StdString"
    with assms(1) sz show ?thesis
      by (simp add: iterate_many_rejects_temporary_string selects_deleted_def
          deleted_iterate_many)
  next
    assume "atype a = PaddedString"
    with assms(1) sz show ?thesis
      by (simp add: iterate_many_rejects_temporary_padded_string selects_deleted_def
          deleted_iterate_many)
  qed
next
  assume "atype v = PaddedStringView"
  then show "selects_callable (resolve iterate_overloads [v])"
    by (simp add: resolve_single [OF viable_iterate_padded_string_view] selects_callable_def
        deleted_iterate)
qed

theorem deleted_overloads_witness:
  "temporary \<lparr>atype = StdString, temporary = True, is_const = False\<rparr>
   \<and> selects_deleted (resolve iterate_overloads
        [\<lparr>atype = StdString, temporary = True, is_const = False\<rparr>])
   \<and> selects_deleted (resolve iterate_many_overloads
        [\<lparr>atype = StdString, temporary = True, is_const = False\<rparr>,
         \<lparr>atype = SizeT, temporary = False, is_const = False\<rparr>])
   \<and> selects_callable (resolve iterate_overloads
        [\<lparr>atype = PaddedStringView, temporary = True, is_const = False\<rparr>])"
  using deleted_overloads_reject_owning_temporaries
    [of "\<lparr>atype = StdString, temporary = True, is_const = False\<rparr>"
        "\<lparr>atype = SizeT, temporary = False, is_const = False\<rparr>"
        "\<lparr>atype = PaddedStringView, temporary = True, is_const = False\<rparr>"]
  by simp

text \<open>
  C10 as stated lists \<^verbatim>\<open>padded_string_view\<close> among the types whose temporaries only a
  deleted overload accepts. The header declares no deleted overload for it: the call of
  \<open>iterate\<close> with a temporary \<^verbatim>\<open>padded_string_view\<close> selects the overload of line 97,
  which can be called.
\<close>

theorem temporary_padded_string_view_is_accepted:
  "selects_callable (resolve iterate_overloads
        [\<lparr>atype = PaddedStringView, temporary = True, is_const = False\<rparr>])
   \<and> \<not> selects_deleted (resolve iterate_overloads
        [\<lparr>atype = PaddedStringView, temporary = True, is_const = False\<rparr>])"
  by (simp add: resolve_single [OF viable_iterate_padded_string_view] selects_callable_def
      selects_deleted_def deleted_iterate)

text \<open>
  Two calls with an owning temporary that the statement above leaves out, because no deleted
  overload is viable for them: \<open>iterate_many\<close> with a temporary \<^verbatim>\<open>std::string\<close> and no
  batch size (the deleted overload of line 214 has no default argument, so it needs two
  arguments), and \<open>iterate\<close> with a const temporary (\<^verbatim>\<open>std::string &&\<close> does not bind to
  it). Each selects the \<^verbatim>\<open>const std::string &\<close> overload.
\<close>

lemma viable_iterate_many_one_string:
  assumes "atype a = StdString"
  shows "filter (\<lambda>f. viable (params f) [a]) iterate_many_overloads
       = [iterate_many_overloads ! 3]"
  using assms by (simp add: iterate_many_overloads_def par_def par_default_def accepts_def)

lemma iterate_many_temporary_without_batch_size:
  "resolve iterate_many_overloads [\<lparr>atype = StdString, temporary = True, is_const = False\<rparr>]
     = Selected (iterate_many_overloads ! 3)
   \<and> \<not> deleted (iterate_many_overloads ! 3)"
proof -
  have "\<not> deleted (iterate_many_overloads ! 3)"
    by (simp add: iterate_many_overloads_def)
  then show ?thesis
    by (simp add: resolve_single [OF viable_iterate_many_one_string])
qed

lemma viable_iterate_const_string:
  assumes "atype a = StdString" "is_const a"
  shows "filter (\<lambda>f. viable (params f) [a]) iterate_overloads = [iterate_overloads ! 2]"
  using assms by (simp add: iterate_overloads_def par_def accepts_def)

lemma iterate_const_temporary_string:
  "resolve iterate_overloads [\<lparr>atype = StdString, temporary = True, is_const = True\<rparr>]
     = Selected (iterate_overloads ! 2)
   \<and> \<not> deleted (iterate_overloads ! 2)"
proof -
  have "\<not> deleted (iterate_overloads ! 2)"
    by (simp add: iterate_overloads_def)
  then show ?thesis
    by (simp add: resolve_single [OF viable_iterate_const_string])
qed

end
